theory Spec2Isabelle
  imports Complex_Main "HOL-Library.Word"
begin

unbundle bit_operations_syntax

section \<open>Python values and strings\<close>

text \<open>
  The program is one Python module, \<^verbatim>\<open>src/main.py\<close>.  A Python \<^verbatim>\<open>str\<close> is modelled as a
  \<^typ>\<open>string\<close>, one \<^typ>\<open>char\<close> per code point (the code points below 256).  The values
  that \<^verbatim>\<open>json.loads\<close> returns are \<^verbatim>\<open>None\<close>, \<^verbatim>\<open>bool\<close>, \<^verbatim>\<open>int\<close> (unbounded),
  \<^verbatim>\<open>float\<close> (kept as its IEEE-754 binary64 bit pattern), \<^verbatim>\<open>str\<close>, \<^verbatim>\<open>list\<close> and
  \<^verbatim>\<open>dict\<close> (its items in insertion order).
\<close>

datatype json =
    JNull
  | JBool bool
  | JInt int
  | JFloat "64 word"
  | JString string
  | JArray "json list"
  | JObject "(string \<times> json) list"

text \<open>Truth value of a Python object, as \<^verbatim>\<open>or\<close>, \<^verbatim>\<open>not\<close> and \<^verbatim>\<open>if\<close> read it.
  A float is false when it is \<^verbatim>\<open>0.0\<close> or \<^verbatim>\<open>-0.0\<close>: all bits but the sign are zero.\<close>

fun truthy :: "json \<Rightarrow> bool" where
  "truthy JNull = False"
| "truthy (JBool b) = b"
| "truthy (JInt i) = (i \<noteq> 0)"
| "truthy (JFloat w) = (w AND mask 63 \<noteq> 0)"
| "truthy (JString s) = (s \<noteq> [])"
| "truthy (JArray xs) = (xs \<noteq> [])"
| "truthy (JObject kvs) = (kvs \<noteq> [])"

definition py_or :: "json \<Rightarrow> json \<Rightarrow> json" where
  "py_or a b = (if truthy a then a else b)"

text \<open>\<^verbatim>\<open>d.get(k, default)\<close> and \<^verbatim>\<open>d.get(k)\<close> on a dict; where the JSON text repeated a
  key, the last value stands.\<close>

definition dict_get_default :: "(string \<times> json) list \<Rightarrow> string \<Rightarrow> json \<Rightarrow> json" where
  "dict_get_default kvs k d = (case map_of (rev kvs) k of None \<Rightarrow> d | Some v \<Rightarrow> v)"

definition dict_get :: "(string \<times> json) list \<Rightarrow> string \<Rightarrow> json" where
  "dict_get kvs k = dict_get_default kvs k JNull"

text \<open>Truth value and \<^verbatim>\<open>or\<close> on an \<^verbatim>\<open>Optional[str]\<close>.\<close>

definition str_truthy :: "string option \<Rightarrow> bool" where
  "str_truthy x = (case x of None \<Rightarrow> False | Some s \<Rightarrow> s \<noteq> [])"

definition opt_or :: "string option \<Rightarrow> string option \<Rightarrow> string option" where
  "opt_or a b = (if str_truthy a then a else b)"

definition or_str :: "string option \<Rightarrow> string \<Rightarrow> string" where
  "or_str a d = (case a of None \<Rightarrow> d | Some s \<Rightarrow> if s \<noteq> [] then s else d)"

text \<open>\<^verbatim>\<open>str.isspace\<close> on one code point below 256: TAB to CR, FS to US, space, NEL and
  the no-break space.\<close>

definition isspace :: "char \<Rightarrow> bool" where
  "isspace c = (let n = (of_char c :: nat)
                in (9 \<le> n \<and> n \<le> 13) \<or> (28 \<le> n \<and> n \<le> 32) \<or> n = 133 \<or> n = 160)"

definition lstrip :: "string \<Rightarrow> string" where
  "lstrip s = dropWhile isspace s"

definition rstrip :: "string \<Rightarrow> string" where
  "rstrip s = rev (dropWhile isspace (rev s))"

definition strip :: "string \<Rightarrow> string" where
  "strip s = rstrip (lstrip s)"

text \<open>\<^verbatim>\<open>s.rstrip('/')\<close>.\<close>

definition rstrip_slash :: "string \<Rightarrow> string" where
  "rstrip_slash s = rev (dropWhile (\<lambda>c. c = CHR ''/'') (rev s))"

text \<open>\<^verbatim>\<open>s.find(c)\<close> and \<^verbatim>\<open>s.rfind(c)\<close> for a needle of one character: the index of the
  first (last) occurrence, or \<open>-1\<close>.\<close>

definition py_find :: "char \<Rightarrow> string \<Rightarrow> int" where
  "py_find c s = (if c \<in> set s then int (length (takeWhile (\<lambda>x. x \<noteq> c) s)) else - 1)"

definition py_rfind :: "char \<Rightarrow> string \<Rightarrow> int" where
  "py_rfind c s =
     (if c \<in> set s then int (length s) - 1 - int (length (takeWhile (\<lambda>x. x \<noteq> c) (rev s)))
      else - 1)"

text \<open>\<^verbatim>\<open>s[i:j]\<close> for indices that are not negative.\<close>

definition py_slice :: "string \<Rightarrow> int \<Rightarrow> int \<Rightarrow> string" where
  "py_slice s i j = take (nat (j - i)) (drop (nat i) s)"

text \<open>Decimal digits of a natural number, \<^verbatim>\<open>str(n)\<close>; \<^verbatim>\<open>"%0wd" % n\<close> pads with zeros to
  width \<open>w\<close>.\<close>

definition digit_char :: "nat \<Rightarrow> char" where
  "digit_char d = ''0123456789'' ! (d mod 10)"

function str_nat :: "nat \<Rightarrow> string" where
  "str_nat n =
     (if n < 10 then [digit_char n]
      else str_nat (n div 10) @ [digit_char (n mod 10)])"
  by pat_completeness auto
termination
  by (relation "measure (\<lambda>n. n)") auto

declare str_nat.simps [simp del]

definition str_int :: "int \<Rightarrow> string" where
  "str_int i = (if i < 0 then CHR ''-'' # str_nat (nat (- i)) else str_nat (nat i))"

definition pad0 :: "nat \<Rightarrow> nat \<Rightarrow> string" where
  "pad0 w n = (let s = str_nat n in replicate (w - length s) CHR ''0'' @ s)"

section \<open>Exceptions\<close>

text \<open>A raised exception is a value: FastAPI's \<^verbatim>\<open>HTTPException(status_code, detail)\<close>, or
  any other Python exception, kept by its class name.  A function that may raise returns
  \<open>exn + 'a\<close>.\<close>

datatype exn = HTTPException nat string | Exception string


section \<open>Timestamps\<close>

text \<open>A \<^verbatim>\<open>datetime\<close> with its attributes; \<open>tzinfo\<close> is the UTC offset in microseconds
  of an aware value and \<open>None\<close> for a naive one.\<close>

record datetime =
  year :: nat
  month :: nat
  day :: nat
  hour :: nat
  minute :: nat
  second :: nat
  microsecond :: nat
  tzinfo :: "int option"

text \<open>\<^verbatim>\<open>datetime.isoformat()\<close>: \<^verbatim>\<open>YYYY-MM-DDTHH:MM:SS\<close>, then \<^verbatim>\<open>.ffffff\<close> when the
  microseconds are not zero, then the offset \<^verbatim>\<open>+HH:MM[:SS[.ffffff]]\<close> of an aware value.\<close>

definition format_offset :: "int \<Rightarrow> string" where
  "format_offset off =
     (let a = nat \<bar>off\<bar>;
          hh = a div 3600000000;
          mm = (a mod 3600000000) div 60000000;
          ss = (a mod 60000000) div 1000000;
          us = a mod 1000000
      in (if off < 0 then ''-'' else ''+'') @ pad0 2 hh @ '':'' @ pad0 2 mm @
         (if ss \<noteq> 0 \<or> us \<noteq> 0
          then '':'' @ pad0 2 ss @ (if us \<noteq> 0 then ''.'' @ pad0 6 us else [])
          else []))"

definition isoformat :: "datetime \<Rightarrow> string" where
  "isoformat d =
     pad0 4 (year d) @ ''-'' @ pad0 2 (month d) @ ''-'' @ pad0 2 (day d) @ ''T'' @
     pad0 2 (hour d) @ '':'' @ pad0 2 (minute d) @ '':'' @ pad0 2 (second d) @
     (if microsecond d \<noteq> 0 then ''.'' @ pad0 6 (microsecond d) else []) @
     (case tzinfo d of None \<Rightarrow> [] | Some off \<Rightarrow> format_offset off)"

text \<open>\<^verbatim>\<open>dt + timedelta(hours=1)\<close>: the same wall-clock reading one hour later, with the
  offset kept; \<^verbatim>\<open>OverflowError\<close> when the result would be past the year 9999.\<close>

definition is_leap :: "nat \<Rightarrow> bool" where
  "is_leap y = (y mod 4 = 0 \<and> (y mod 100 \<noteq> 0 \<or> y mod 400 = 0))"

definition days_in_month :: "nat \<Rightarrow> nat \<Rightarrow> nat" where
  "days_in_month y m =
     (if m = 2 then (if is_leap y then 29 else 28)
      else if m = 4 \<or> m = 6 \<or> m = 9 \<or> m = 11 then 30 else 31)"

definition add_one_hour :: "datetime \<Rightarrow> exn + datetime" where
  "add_one_hour d =
     (if hour d < 23 then Inr (d\<lparr>hour := hour d + 1\<rparr>)
      else if day d < days_in_month (year d) (month d)
        then Inr (d\<lparr>day := day d + 1, hour := 0\<rparr>)
      else if month d < 12 then Inr (d\<lparr>month := month d + 1, day := 1, hour := 0\<rparr>)
      else if year d < 9999 then Inr (d\<lparr>year := year d + 1, month := 1, day := 1, hour := 0\<rparr>)
      else Inl (Exception ''OverflowError''))"

section \<open>The environment: configuration, libraries and the network\<close>

text \<open>An outbound HTTP request of the two gateways: URL, bearer key, model name, and the
  prompt (chat) or the path of the audio file (transcription).\<close>

datatype request =
    ChatCompletion string string string string
  | AudioTranscription string string string string

text \<open>A Google Calendar event, by the keys the program reads and writes.\<close>

record event =
  ev_id :: "string option"
  ev_summary :: "string option"
  ev_description :: "string option"
  ev_start :: "(string \<times> string) option"
  ev_end :: "(string \<times> string) option"

text \<open>The calls made on the Google Calendar client, and what building the client from
  a user's stored credentials comes to: the credentials do not load, their refresh
  fails, the client cannot be built (after a refresh that stored new credentials or
  not), or the client is there.\<close>

datatype calendar_call =
    EventsGet string
  | EventsUpdate string event
  | EventsInsert event

datatype google_service =
    CredsInvalid string
  | RefreshFailed
  | BuildFailed "string option" string
  | Service "string option"

record http_response =
  status_code :: nat
  resp_text :: string

text \<open>
  What the module reads from outside itself.  The upper-case fields are the module-level
  constants read from \<^verbatim>\<open>os.environ\<close> at import.  The library functions whose result
  depends on the installed version are taken as they are: \<open>json_loads\<close> is
  \<^verbatim>\<open>json.loads\<close> (\<open>None\<close> when it raises), \<open>py_str\<close> is \<^verbatim>\<open>str()\<close> of a value that is
  not a \<^verbatim>\<open>str\<close>, \<open>pydantic_str\<close> is pydantic's coercion of a value that is neither a
  \<^verbatim>\<open>str\<close> nor \<^verbatim>\<open>None\<close> to a \<^verbatim>\<open>str\<close> field (\<open>None\<close> when validation fails),
  \<open>fromisoformat\<close> is \<^verbatim>\<open>datetime.fromisoformat\<close> (\<open>None\<close> when it raises).
  \<open>http_post\<close> is the remote backend: the response to a request, or \<open>Inl\<close> the message
  of the exception the client raised.  \<open>file_write\<close> is writing the upload to disk.
  \<open>google_credentials\<close> is building the calendar client from stored credentials,
  \<open>calendar_fault\<close> the message of the error a calendar call fails with (\<open>None\<close> when
  the call goes through), \<open>new_event_id\<close> the id Google gives the next created event.
  Every theorem below holds for every environment.
\<close>

record env =
  LLM_API_BASE :: string
  LLM_API_KEY :: "string option"
  LLM_MODEL_NAME :: string
  STT_MODEL_NAME :: string
  AUDIO_DIR :: string
  json_loads :: "string \<Rightarrow> json option"
  py_str :: "json \<Rightarrow> string"
  pydantic_str :: "json \<Rightarrow> string option"
  fromisoformat :: "string \<Rightarrow> datetime option"
  http_post :: "request \<Rightarrow> string + http_response"
  file_write :: "string \<Rightarrow> string \<Rightarrow> exn option"
  google_credentials :: "string \<Rightarrow> google_service"
  calendar_fault :: "calendar_call \<Rightarrow> string option"
  new_event_id :: "nat \<Rightarrow> string"

definition to_str :: "env \<Rightarrow> json \<Rightarrow> string" where
  "to_str E v = (case v of JString s \<Rightarrow> s | _ \<Rightarrow> py_str E v)"

section \<open>Chat gateway and transcription gateway\<close>

text \<open>\<^verbatim>\<open>(api_key or LLM_API_KEY or "").strip()\<close>, lines 420 and 607.\<close>

definition resolve_key :: "env \<Rightarrow> string option \<Rightarrow> string" where
  "resolve_key E api_key = strip (or_str (opt_or api_key (LLM_API_KEY E)) [])"

text \<open>\<^verbatim>\<open>x[0]\<close> on a value that is true.\<close>

fun py_index0 :: "json \<Rightarrow> exn + json" where
  "py_index0 (JArray (x # xs)) = Inr x"
| "py_index0 (JArray []) = Inl (Exception ''IndexError'')"
| "py_index0 (JString (c # cs)) = Inr (JString [c])"
| "py_index0 (JString []) = Inl (Exception ''IndexError'')"
| "py_index0 (JObject kvs) = Inl (Exception ''KeyError'')"
| "py_index0 v = Inl (Exception ''TypeError'')"

text \<open>Lines 453 to 462 of \<^verbatim>\<open>ollama_chat\<close>: the text of the first choice of a decoded
  response body.\<close>

definition chat_content :: "env \<Rightarrow> json \<Rightarrow> exn + string" where
  "chat_content E data =
     (case data of
        JObject kvs \<Rightarrow>
          (let choices = py_or (dict_get kvs ''choices'') (JArray []) in
           if \<not> truthy choices
           then Inl (HTTPException 500 ''LLM response did not contain any choices.'')
           else (case py_index0 choices of
                   Inl e \<Rightarrow> Inl e
                 | Inr (JObject ckvs) \<Rightarrow>
                     (case py_or (dict_get ckvs ''message'') (JObject []) of
                        JObject mkvs \<Rightarrow>
                          Inr (to_str E (py_or (dict_get mkvs ''content'') (JString [])))
                      | _ \<Rightarrow> Inl (Exception ''AttributeError''))
                 | Inr _ \<Rightarrow> Inl (Exception ''AttributeError'')))
      | _ \<Rightarrow> Inl (Exception ''AttributeError''))"

definition no_key_chat :: exn where
  "no_key_chat = HTTPException 400
     (''No LLM API key provided. Set an API key in the app or configure '' @
      ''LLM_API_KEY / OPENAI_API_KEY on the server.'')"

text \<open>\<^verbatim>\<open>ollama_chat\<close>, lines 415 to 462.  The list of requests sent so far is threaded
  through: a request is appended exactly when \<^verbatim>\<open>client.post\<close> is called.\<close>

definition ollama_chat ::
  "env \<Rightarrow> string \<Rightarrow> string option \<Rightarrow> request list \<Rightarrow> (exn + string) \<times> request list" where
  "ollama_chat E prompt api_key sent =
     (let key = resolve_key E api_key in
      if key = [] then (Inl no_key_chat, sent)
      else
        (let req = ChatCompletion (rstrip_slash (LLM_API_BASE E) @ ''/chat/completions'')
                     key (LLM_MODEL_NAME E) prompt
         in ((case http_post E req of
                Inl e \<Rightarrow> Inl (HTTPException 500 (''Error calling LLM: '' @ e))
              | Inr resp \<Rightarrow>
                  if status_code resp \<noteq> 200
                  then Inl (HTTPException 500
                         (''LLM error '' @ str_nat (status_code resp) @ '': '' @
                          take 200 (resp_text resp)))
                  else (case json_loads E (resp_text resp) of
                          None \<Rightarrow> Inl (Exception ''JSONDecodeError'')
                        | Some data \<Rightarrow> chat_content E data)),
             sent @ [req])))"

definition no_key_transcribe :: exn where
  "no_key_transcribe = HTTPException 400
     (''No LLM API key provided. Set an API key in the app or configure '' @
      ''LLM_API_KEY / OPENAI_API_KEY on the server to enable transcription.'')"

text \<open>\<^verbatim>\<open>transcribe_audio\<close>, lines 599 to 651.\<close>

definition transcribe_audio ::
  "env \<Rightarrow> string \<Rightarrow> string option \<Rightarrow> request list \<Rightarrow> (exn + string) \<times> request list" where
  "transcribe_audio E file_path api_key sent =
     (let key = resolve_key E api_key in
      if key = [] then (Inl no_key_transcribe, sent)
      else
        (let req = AudioTranscription (rstrip_slash (LLM_API_BASE E) @ ''/audio/transcriptions'')
                     key (STT_MODEL_NAME E) file_path
         in ((case http_post E req of
                Inl e \<Rightarrow> Inl (HTTPException 500 (''Error calling transcription service: '' @ e))
              | Inr resp \<Rightarrow>
                  if status_code resp \<noteq> 200
                  then Inl (HTTPException 500
                         (''Transcription error '' @ str_nat (status_code resp) @ '': '' @
                          take 200 (resp_text resp)))
                  else Inr (resp_text resp)),
             sent @ [req])))"

text \<open>\<^verbatim>\<open>generate_summary\<close>, lines 465 to 475.\<close>

definition summary_prompt :: "string \<Rightarrow> string" where
  "summary_prompt transcript =
     ''You are an expert meeting summarizer. '' @
     ''Given the following transcript, produce a clear, concise summary in markdown. '' @
     ''Focus on key decisions, topics discussed, and outcomes.\<newline>\<newline>'' @
     ''Transcript:\<newline>'' @ transcript"

definition generate_summary ::
  "env \<Rightarrow> string \<Rightarrow> string option \<Rightarrow> request list \<Rightarrow> (exn + string) \<times> request list" where
  "generate_summary E transcript api_key sent =
     ollama_chat E (summary_prompt transcript) api_key sent"

section \<open>Action-item extraction\<close>

text \<open>The pydantic model \<^verbatim>\<open>ActionItem\<close>, lines 158 to 162.\<close>

record ActionItem =
  task :: string
  owner :: "string option"
  due_date :: "string option"
  status :: "string option"

text \<open>Validation of a value given to an \<^verbatim>\<open>Optional[str]\<close> field: \<^verbatim>\<open>None\<close> and a
  \<^verbatim>\<open>str\<close> pass unchanged, anything else is coerced or refused by pydantic.\<close>

definition validate_optional_str :: "env \<Rightarrow> json \<Rightarrow> exn + string option" where
  "validate_optional_str E v =
     (case v of
        JNull \<Rightarrow> Inr None
      | JString s \<Rightarrow> Inr (Some s)
      | _ \<Rightarrow> (case pydantic_str E v of
                None \<Rightarrow> Inl (Exception ''ValidationError'')
              | Some s \<Rightarrow> Inr (Some s)))"

text \<open>The two characters \<^verbatim>\<open>\"\<close> that the prompt's single-quoted lines hold.\<close>

definition bq :: string where
  "bq = [CHR 0x5C, CHR 0x22]"

definition action_items_prompt :: "string \<Rightarrow> string" where
  "action_items_prompt transcript =
     ''You are an assistant that extracts ACTION ITEMS from meeting transcripts.\<newline>'' @
     ''Return ONLY valid JSON in this exact format:\<newline>\<newline>'' @
     ''[\<newline>'' @
     ''  {\<newline>'' @
     ''    '' @ bq @ ''task'' @ bq @ '': '' @ bq @ ''string, the actual action'' @ bq @ '',\<newline>'' @
     ''    '' @ bq @ ''owner'' @ bq @ '': '' @ bq @ ''string or null'' @ bq @ '',\<newline>'' @
     ''    '' @ bq @ ''due_date'' @ bq @ '': '' @ bq @ ''YYYY-MM-DD or null'' @ bq @ '',\<newline>'' @
     ''    '' @ bq @ ''status'' @ bq @ '': '' @ bq @ ''open'' @ bq @ ''\<newline>'' @
     ''  }\<newline>'' @
     '']\<newline>\<newline>'' @
     ''If there are no action items, return an empty list [].\<newline>\<newline>'' @
     ''Transcript:\<newline>'' @ transcript @ ''\<newline>''"

text \<open>The bracket scan that lines 562 to 567 (with \<^verbatim>\<open>[\<close> and \<^verbatim>\<open>]\<close>), 1403 to 1408 and
  1499 to 1504 (with \<^verbatim>\<open>{\<close> and \<^verbatim>\<open>}\<close>) each write out: from the first opening bracket
  to the last closing one, or the whole text.\<close>

definition raw_json :: "char \<Rightarrow> char \<Rightarrow> string \<Rightarrow> string" where
  "raw_json opening closing raw =
     (let start = py_find opening raw; end' = py_rfind closing raw in
      if start \<noteq> - 1 \<and> end' \<noteq> - 1 \<and> end' > start
      then py_slice raw start (end' + 1)
      else raw)"

text \<open>One turn of the loop of lines 572 to 585: \<open>Inr None\<close> is \<^verbatim>\<open>continue\<close>, \<open>Inl\<close> an
  exception (\<^verbatim>\<open>.strip()\<close> on a task that is not a string, or a field pydantic
  refuses).\<close>

definition action_item_of :: "env \<Rightarrow> json \<Rightarrow> exn + ActionItem option" where
  "action_item_of E obj =
     (case obj of
        JObject kvs \<Rightarrow>
          (case py_or (dict_get kvs ''task'') (JString []) of
             JString s \<Rightarrow>
               (let t = strip s in
                if t = [] then Inr None
                else
                  (case validate_optional_str E (dict_get kvs ''owner'') of
                     Inl e \<Rightarrow> Inl e
                   | Inr ow \<Rightarrow>
                       (case validate_optional_str E (dict_get kvs ''due_date'') of
                          Inl e \<Rightarrow> Inl e
                        | Inr dd \<Rightarrow>
                            (case validate_optional_str E
                                    (py_or (dict_get kvs ''status'') (JString ''open'')) of
                               Inl e \<Rightarrow> Inl e
                             | Inr st \<Rightarrow>
                                 Inr (Some \<lparr>task = t, owner = ow, due_date = dd,
                                            status = st\<rparr>)))))
           | _ \<Rightarrow> Inl (Exception ''AttributeError''))
      | _ \<Rightarrow> Inr None)"

fun collect_action_items :: "env \<Rightarrow> json list \<Rightarrow> exn + ActionItem list" where
  "collect_action_items E [] = Inr []"
| "collect_action_items E (obj # objs) =
     (case action_item_of E obj of
        Inl e \<Rightarrow> Inl e
      | Inr r \<Rightarrow>
          (case collect_action_items E objs of
             Inl e \<Rightarrow> Inl e
           | Inr items \<Rightarrow> Inr (case r of None \<Rightarrow> items | Some item \<Rightarrow> item # items)))"

text \<open>The body of the \<^verbatim>\<open>try\<close> of lines 561 to 586.\<close>

definition parse_action_items :: "env \<Rightarrow> string \<Rightarrow> exn + ActionItem list" where
  "parse_action_items E raw =
     (case json_loads E (raw_json CHR ''['' CHR '']'' raw) of
        None \<Rightarrow> Inl (Exception ''JSONDecodeError'')
      | Some (JArray objs) \<Rightarrow> collect_action_items E objs
      | Some _ \<Rightarrow> Inr [])"

text \<open>\<^verbatim>\<open>extract_action_items_via_llama\<close>, lines 538 to 588: the call of the gateway is
  outside the \<^verbatim>\<open>try\<close>, \<^verbatim>\<open>except Exception: return []\<close> closes it.\<close>

definition extract_action_items_via_llama ::
  "env \<Rightarrow> string \<Rightarrow> string option \<Rightarrow> request list \<Rightarrow> (exn + ActionItem list) \<times> request list"
  where
  "extract_action_items_via_llama E transcript api_key sent =
     (case ollama_chat E (action_items_prompt transcript) api_key sent of
        (Inl e, sent') \<Rightarrow> (Inl e, sent')
      | (Inr raw, sent') \<Rightarrow>
          (Inr (case parse_action_items E raw of Inl e \<Rightarrow> [] | Inr items \<Rightarrow> items), sent'))"

section \<open>Stored rows and the request's world\<close>

text \<open>The ORM classes \<^verbatim>\<open>User\<close> and \<^verbatim>\<open>Meeting\<close>, lines 98 to 131.  The primary key
  \<^verbatim>\<open>id\<close> is written \<open>id'\<close>.  \<open>action_items\<close> is the JSON text of the items.\<close>

record User =
  id' :: string
  email :: string
  google_sub :: "string option"
  google_creds_json :: string
  api_token :: string

record Meeting =
  id' :: string
  title :: string
  folder_id :: "string option"
  created_at :: datetime
  start_time :: "string option"
  end_time :: "string option"
  status :: "string option"
  transcript :: "string option"
  summary :: "string option"
  audio_path :: "string option"
  calendar_event_id :: "string option"
  action_items :: "string option"
  is_favorite :: "bool option"
  owner_id :: "string option"

text \<open>Everything a request can change: the two tables, the requests sent to the AI
  backend so far, the files written, and the events of the user's calendar.\<close>

record world =
  users :: "User list"
  meetings :: "Meeting list"
  requests_sent :: "request list"
  files :: "(string \<times> string) list"
  calendar :: "(string \<times> event) list"

section \<open>Authentication\<close>

text \<open>\<^verbatim>\<open>str.split()\<close> and \<^verbatim>\<open>str.lower()\<close>.\<close>

fun split_acc :: "string \<Rightarrow> string \<Rightarrow> string list" where
  "split_acc cur [] = (if cur = [] then [] else [cur])"
| "split_acc cur (c # cs) =
     (if isspace c then (if cur = [] then split_acc [] cs else cur # split_acc [] cs)
      else split_acc (cur @ [c]) cs)"

definition split_ws :: "string \<Rightarrow> string list" where
  "split_ws s = split_acc [] s"

definition lower_char :: "char \<Rightarrow> char" where
  "lower_char c =
     (let n = (of_char c :: nat) in
      if (65 \<le> n \<and> n \<le> 90) \<or> (192 \<le> n \<and> n \<le> 222 \<and> n \<noteq> 215) then char_of (n + 32) else c)"

definition lower :: "string \<Rightarrow> string" where
  "lower s = map lower_char s"

text \<open>\<^verbatim>\<open>_get_current_user_from_header\<close>, lines 351 to 373.\<close>

definition get_current_user_from_header :: "string option \<Rightarrow> User list \<Rightarrow> exn + User" where
  "get_current_user_from_header authorization us =
     (case authorization of
        None \<Rightarrow> Inl (HTTPException 401
                 ''Missing Authorization header. Please connect Google Calendar first.'')
      | Some a \<Rightarrow>
          if a = [] then Inl (HTTPException 401
                 ''Missing Authorization header. Please connect Google Calendar first.'')
          else
            (case split_ws a of
               [scheme, token] \<Rightarrow>
                 if lower scheme \<noteq> ''bearer''
                 then Inl (HTTPException 401 ''Invalid Authorization header.'')
                 else (case find (\<lambda>u. api_token u = token) us of
                         None \<Rightarrow> Inl (HTTPException 401 ''Invalid or expired API token.'')
                       | Some u \<Rightarrow> Inr u)
             | _ \<Rightarrow> Inl (HTTPException 401 ''Invalid Authorization header.'')))"

section \<open>Projection of a meeting to the API shape\<close>

text \<open>Iterating over a Python object: the elements of a list, the characters of a
  string, the keys of a dict (each once, in the order of first insertion);
  \<^verbatim>\<open>TypeError\<close> for the rest.\<close>

definition dict_keys :: "(string \<times> json) list \<Rightarrow> string list" where
  "dict_keys kvs = rev (remdups (rev (map fst kvs)))"

fun py_iter :: "json \<Rightarrow> exn + json list" where
  "py_iter (JArray xs) = Inr xs"
| "py_iter (JString s) = Inr (map (\<lambda>c. JString [c]) s)"
| "py_iter (JObject kvs) = Inr (map JString (dict_keys kvs))"
| "py_iter v = Inl (Exception ''TypeError'')"

text \<open>One dict of the list that lines 397 to 405 build, and the dict that
  \<^verbatim>\<open>meeting_to_dict\<close> returns.\<close>

record item_dict =
  item_task :: json
  item_owner :: json
  item_due_date :: json
  item_status :: json

record meeting_dict =
  d_id :: string
  d_title :: string
  d_folder_id :: "string option"
  d_created_at :: datetime
  d_start_time :: "string option"
  d_end_time :: "string option"
  d_status :: "string option"
  d_transcript :: "string option"
  d_summary :: "string option"
  d_audio_path :: "string option"
  d_calendar_event_id :: "string option"
  d_is_favorite :: bool
  d_action_items :: "item_dict list"

fun item_dicts :: "json list \<Rightarrow> exn + item_dict list" where
  "item_dicts [] = Inr []"
| "item_dicts (JObject kvs # rest) =
     (case item_dicts rest of
        Inl e \<Rightarrow> Inl e
      | Inr items \<Rightarrow>
          Inr (\<lparr>item_task = dict_get_default kvs ''task'' (JString []),
                item_owner = dict_get kvs ''owner'',
                item_due_date = dict_get kvs ''due_date'',
                item_status = dict_get_default kvs ''status'' (JString ''open'')\<rparr> # items))"
| "item_dicts (v # rest) = Inl (Exception ''AttributeError'')"

text \<open>The body of the \<^verbatim>\<open>try\<close> of lines 394 to 406.\<close>

definition parse_stored_items :: "env \<Rightarrow> string \<Rightarrow> exn + item_dict list" where
  "parse_stored_items E s =
     (case json_loads E s of
        None \<Rightarrow> Inl (Exception ''JSONDecodeError'')
      | Some parsed \<Rightarrow>
          (case py_iter parsed of Inl e \<Rightarrow> Inl e | Inr xs \<Rightarrow> item_dicts xs))"

text \<open>\<^verbatim>\<open>meeting_to_dict\<close>, lines 376 to 412.\<close>

definition meeting_to_dict :: "env \<Rightarrow> Meeting \<Rightarrow> meeting_dict" where
  "meeting_to_dict E m =
     \<lparr>d_id = Meeting.id' m,
      d_title = title m,
      d_folder_id = folder_id m,
      d_created_at = created_at m,
      d_start_time = start_time m,
      d_end_time = end_time m,
      d_status = status m,
      d_transcript = transcript m,
      d_summary = summary m,
      d_audio_path = audio_path m,
      d_calendar_event_id = calendar_event_id m,
      d_is_favorite = (is_favorite m = Some True),
      d_action_items =
        (if str_truthy (action_items m)
         then (case parse_stored_items E (or_str (action_items m) []) of
                 Inl e \<Rightarrow> []
               | Inr items \<Rightarrow> items)
         else [])\<rparr>"

section \<open>Ingestion: a meeting from an uploaded audio file\<close>

text \<open>\<^verbatim>\<open>os.path.join\<close> of two parts (POSIX).\<close>

definition os_path_join :: "string \<Rightarrow> string \<Rightarrow> string" where
  "os_path_join a b =
     (if take 1 b = ''/'' then b
      else if a = [] \<or> last a = CHR ''/'' then a @ b
      else a @ ''/'' @ b)"

text \<open>\<^verbatim>\<open>save_upload_to_wav\<close>, lines 591 to 596: the write may raise; otherwise the file is
  there.\<close>

definition save_upload_to_wav :: "env \<Rightarrow> string \<Rightarrow> string \<Rightarrow> world \<Rightarrow> exn option \<times> world" where
  "save_upload_to_wav E audio dest_path w =
     (case file_write E dest_path audio of
        Some e \<Rightarrow> (Some e, w)
      | None \<Rightarrow> (None, w\<lparr>files := files w @ [(dest_path, audio)]\<rparr>))"

text \<open>
  Lines 1004 to 1030: transcript, summary and action items, with both \<^verbatim>\<open>try\<close> blocks.
  \<^verbatim>\<open>asyncio.gather\<close> starts both coroutines, the summary first, and raises when either
  raised; the two handlers of each \<^verbatim>\<open>try\<close> (for \<^verbatim>\<open>HTTPException\<close> and for
  \<^verbatim>\<open>Exception\<close>) assign the same values.
\<close>

definition enrichment ::
  "env \<Rightarrow> string \<Rightarrow> string option \<Rightarrow> request list \<Rightarrow>
   (string \<times> string option \<times> ActionItem list) \<times> request list" where
  "enrichment E path api_key sent =
     (case transcribe_audio E path api_key sent of
        (Inl e, s1) \<Rightarrow> (([], None, []), s1)
      | (Inr tr, s1) \<Rightarrow>
          (case generate_summary E tr api_key s1 of
             (r1, s2) \<Rightarrow>
               (case extract_action_items_via_llama E tr api_key s2 of
                  (r2, s3) \<Rightarrow>
                    (case (r1, r2) of
                       (Inr sm, Inr items) \<Rightarrow> ((tr, Some sm, items), s3)
                     | _ \<Rightarrow> ((tr, None, []), s3)))))"

text \<open>\<^verbatim>\<open>json.dumps\<close> of the list of dicts of lines 1035 to 1045 (\<^verbatim>\<open>ensure_ascii\<close>, the
  default separators).\<close>

definition hex_digit :: "nat \<Rightarrow> char" where
  "hex_digit d = ''0123456789abcdef'' ! (d mod 16)"

definition escape_char :: "char \<Rightarrow> string" where
  "escape_char c =
     (let n = (of_char c :: nat) in
      if n = 34 then [CHR 0x5C, CHR 0x22]
      else if n = 92 then [CHR 0x5C, CHR 0x5C]
      else if n = 10 then [CHR 0x5C, CHR ''n'']
      else if n = 13 then [CHR 0x5C, CHR ''r'']
      else if n = 9 then [CHR 0x5C, CHR ''t'']
      else if n = 8 then [CHR 0x5C, CHR ''b'']
      else if n = 12 then [CHR 0x5C, CHR ''f'']
      else if 32 \<le> n \<and> n \<le> 126 then [c]
      else [CHR 0x5C, CHR ''u'', CHR ''0'', CHR ''0'', hex_digit (n div 16), hex_digit n])"

definition dumps_str :: "string \<Rightarrow> string" where
  "dumps_str s = CHR 0x22 # concat (map escape_char s) @ [CHR 0x22]"

definition dumps_optional_str :: "string option \<Rightarrow> string" where
  "dumps_optional_str x = (case x of None \<Rightarrow> ''null'' | Some s \<Rightarrow> dumps_str s)"

definition dumps_item :: "ActionItem \<Rightarrow> string" where
  "dumps_item item =
     ''{'' @ dumps_str ''task'' @ '': '' @ dumps_str (task item) @ '', '' @
     dumps_str ''owner'' @ '': '' @ dumps_optional_str (owner item) @ '', '' @
     dumps_str ''due_date'' @ '': '' @ dumps_optional_str (due_date item) @ '', '' @
     dumps_str ''status'' @ '': '' @ dumps_str (or_str (ActionItem.status item) ''open'') @ ''}''"

fun join_with :: "string \<Rightarrow> string list \<Rightarrow> string" where
  "join_with sep [] = []"
| "join_with sep [x] = x"
| "join_with sep (x # y # ys) = x @ sep @ join_with sep (y # ys)"

definition dumps_items :: "ActionItem list \<Rightarrow> string" where
  "dumps_items items = ''['' @ join_with '', '' (map dumps_item items) @ '']''"

text \<open>
  \<^verbatim>\<open>create_meeting_with_audio\<close>, lines 984 to 1069.  \<open>uuid4\<close> and \<open>utcnow\<close> are the
  values that \<^verbatim>\<open>uuid.uuid4()\<close> and \<^verbatim>\<open>datetime.utcnow()\<close> return in this request.  The
  result is the response (\<open>Inl\<close> when the handler raises) and the world afterwards.
\<close>

definition create_meeting_with_audio ::
  "env \<Rightarrow> string \<Rightarrow> datetime \<Rightarrow> string \<Rightarrow> string option \<Rightarrow> string option \<Rightarrow> string option \<Rightarrow>
   string option \<Rightarrow> string \<Rightarrow> string option \<Rightarrow> string option \<Rightarrow> world \<Rightarrow>
   (exn + meeting_dict) \<times> world" where
  "create_meeting_with_audio E uuid4 utcnow title' folder_id' start_time' end_time'
       calendar_event_id' audio authorization x_llm_api_key w =
     (let meeting_id = uuid4;
          audio_filename = meeting_id @ ''.wav'';
          path = os_path_join (AUDIO_DIR E) audio_filename
      in case save_upload_to_wav E audio path w of
           (Some e, w1) \<Rightarrow> (Inl e, w1)
         | (None, w1) \<Rightarrow>
             (case enrichment E path x_llm_api_key (requests_sent w1) of
                ((tr, sm, items), sent') \<Rightarrow>
                  (let w2 = w1\<lparr>requests_sent := sent'\<rparr> in
                   case get_current_user_from_header authorization (users w2) of
                     Inl e \<Rightarrow> (Inl e, w2)
                   | Inr current_user \<Rightarrow>
                       (let meeting =
                              \<lparr>Meeting.id' = meeting_id,
                               title = title',
                               folder_id = folder_id',
                               created_at = utcnow,
                               start_time = start_time',
                               end_time = end_time',
                               status = Some ''completed'',
                               transcript = Some tr,
                               summary = sm,
                               audio_path = Some (os_path_join ''audio'' audio_filename),
                               calendar_event_id = calendar_event_id',
                               action_items = Some (dumps_items items),
                               is_favorite = Some False,
                               owner_id = Some (User.id' current_user)\<rparr>
                        in (Inr (meeting_to_dict E meeting),
                            w2\<lparr>meetings := meetings w2 @ [meeting]\<rparr>)))))"

section \<open>Question answering and topic clustering\<close>

text \<open>
  \<^verbatim>\<open>db.query(Meeting).filter(Meeting.owner_id == uid).order_by(Meeting.created_at.desc())\<close>
  with its \<^verbatim>\<open>limit\<close>: the owner's rows, newest first (rows created at the same
  instant keep their stored order), cut to \<open>n\<close>.  \<open>created_key\<close> orders naive timestamps.
\<close>

definition created_key :: "datetime \<Rightarrow> nat" where
  "created_key d =
     (((((year d * 13 + month d) * 32 + day d) * 24 + hour d) * 60 + minute d) * 60 + second d)
       * 1000000 + microsecond d"

definition newest_first :: "Meeting list \<Rightarrow> Meeting list" where
  "newest_first ms = sort_key (\<lambda>m. - int (created_key (created_at m))) ms"

definition recent_meetings :: "Meeting list \<Rightarrow> string \<Rightarrow> nat \<Rightarrow> Meeting list" where
  "recent_meetings ms uid n = take n (newest_first (filter (\<lambda>m. owner_id m = Some uid) ms))"

datatype QAReference = QAReference string string datetime

datatype QAResponse = QAResponse string "QAReference list"

definition no_meetings_answer :: string where
  "no_meetings_answer = ''There are no meetings in the system yet.''"

text \<open>Lines 1376 to 1399: the prompt of the question-answer engine.\<close>

definition qa_context_line :: "Meeting \<Rightarrow> string" where
  "qa_context_line m =
     ''- id: '' @ Meeting.id' m @ ''\<newline>'' @
     ''  title: '' @ title m @ ''\<newline>'' @
     ''  created_at: '' @ isoformat (created_at m) @ ''\<newline>'' @
     ''  summary: '' @ or_str (summary m) ''No summary available.'' @ ''\<newline>''"

definition qa_prompt :: "Meeting list \<Rightarrow> string \<Rightarrow> string" where
  \<open>qa_prompt ms question =
     ''You are an assistant that answers questions about past meetings.\<newline>'' @
     ''You are given a list of meetings with id, title, created_at, and summary.\<newline>'' @
     ''Answer the user's question based ONLY on this context.\<newline>'' @
     ''If you truly cannot answer from the data, say you don't know.\<newline>'' @
     ''Respond in JSON with this exact shape:\<newline>'' @
     ''{\<newline>'' @
     ''  "answer": "short markdown answer",\<newline>'' @
     ''  "references": [ { "meeting_id": "..." }, ... ]\<newline>'' @
     ''}\<newline>\<newline>'' @
     ''Meetings:\<newline>'' @ join_with ''\<newline>\<newline>'' (map qa_context_line ms) @ ''\<newline>\<newline>'' @
     ''Question: '' @ question @ ''\<newline>''\<close>

text \<open>The body of the \<^verbatim>\<open>try\<close> of lines 1402 to 1411: the answer text and the raw
  references.\<close>

definition parse_answer :: "env \<Rightarrow> string \<Rightarrow> exn + string \<times> json" where
  "parse_answer E raw =
     (case json_loads E (raw_json CHR ''{'' CHR ''}'' raw) of
        None \<Rightarrow> Inl (Exception ''JSONDecodeError'')
      | Some (JObject kvs) \<Rightarrow>
          (let a = strip (to_str E (py_or (dict_get kvs ''answer'') (JString [])))
           in Inr (if a \<noteq> [] then a else raw,
                   py_or (dict_get kvs ''references'') (JArray [])))
      | Some _ \<Rightarrow> Inl (Exception ''AttributeError''))"

text \<open>Line 1418: the ids of the references that are dicts, as text.\<close>

fun reference_ids :: "env \<Rightarrow> json list \<Rightarrow> string list" where
  "reference_ids E [] = []"
| "reference_ids E (JObject kvs # rs) = to_str E (dict_get kvs ''meeting_id'') # reference_ids E rs"
| "reference_ids E (v # rs) = reference_ids E rs"

text \<open>
  \<^verbatim>\<open>ai_question_answer\<close>, lines 1346 to 1444.  The set comprehension of line 1418 is
  outside the \<^verbatim>\<open>try\<close>: references that cannot be iterated raise.
\<close>

definition ai_question_answer ::
  "env \<Rightarrow> string \<Rightarrow> string option \<Rightarrow> string option \<Rightarrow> world \<Rightarrow> (exn + QAResponse) \<times> world" where
  "ai_question_answer E payload_question authorization x_llm_api_key w =
     (let question = strip payload_question in
      if question = [] then (Inl (HTTPException 400 ''Question cannot be empty.''), w)
      else
        (case get_current_user_from_header authorization (users w) of
           Inl e \<Rightarrow> (Inl e, w)
         | Inr current_user \<Rightarrow>
             (let ms = recent_meetings (meetings w) (User.id' current_user) 40 in
              if ms = [] then (Inr (QAResponse no_meetings_answer []), w)
              else
                (case ollama_chat E (qa_prompt ms question) x_llm_api_key (requests_sent w) of
                   (Inl e, sent') \<Rightarrow> (Inl e, w\<lparr>requests_sent := sent'\<rparr>)
                 | (Inr raw, sent') \<Rightarrow>
                     (let w' = w\<lparr>requests_sent := sent'\<rparr> in
                      case parse_answer E raw of
                        Inl e \<Rightarrow> (Inr (QAResponse raw []), w')
                      | Inr (answer_text, refs_raw) \<Rightarrow>
                          (case py_iter refs_raw of
                             Inl e \<Rightarrow> (Inl e, w')
                           | Inr rs \<Rightarrow>
                               (let id_set = set (reference_ids E rs) in
                                if id_set = {} then (Inr (QAResponse answer_text []), w')
                                else
                                  (case get_current_user_from_header authorization (users w') of
                                     Inl e \<Rightarrow> (Inl e, w')
                                   | Inr u \<Rightarrow>
                                       (let rows = newest_first
                                              (filter (\<lambda>m. owner_id m = Some (User.id' u) \<and>
                                                           Meeting.id' m \<in> id_set) (meetings w'))
                                        in (Inr (QAResponse answer_text
                                                  (map (\<lambda>m. QAReference (Meeting.id' m) (title m)
                                                                (created_at m)) rows)),
                                            w'))))))))))"

datatype TopicCluster = TopicCluster string "string option" "string list"

text \<open>Lines 1471 to 1495: the prompt of the topic engine.  Its en dash (U+2013) is
  written as the three bytes of its UTF-8 form.\<close>

definition topics_line :: "Meeting \<Rightarrow> string" where
  "topics_line m =
     ''- id: '' @ Meeting.id' m @ ''\<newline>'' @
     ''  title: '' @ title m @ ''\<newline>'' @
     ''  created_at: '' @ isoformat (created_at m) @ ''\<newline>'' @
     ''  summary: '' @ or_str (summary m) ''No summary'' @ ''\<newline>''"

definition topics_prompt :: "Meeting list \<Rightarrow> string" where
  \<open>topics_prompt ms =
     ''You are an assistant that groups related meetings into topics.\<newline>'' @
     ''Given the list of meetings below, create 3'' @ [CHR 0xE2, CHR 0x80, CHR 0x93] @
     ''8 coherent clusters.\<newline>'' @
     ''Respond ONLY as JSON with this shape:\<newline>'' @
     ''{ "clusters": [\<newline>'' @
     ''  {\<newline>'' @
     ''    "name": "Short topic name",\<newline>'' @
     ''    "description": "Optional one-sentence description",\<newline>'' @
     ''    "meeting_ids": ["id1", "id2", ...]\<newline>'' @
     ''  },\<newline>'' @
     ''  ...\<newline>'' @
     '']}\<newline>\<newline>'' @
     ''Meetings:\<newline>'' @ join_with ''\<newline>\<newline>'' (map topics_line ms) @ ''\<newline>''\<close>

text \<open>Lines 1514 to 1518: the ids that are \<^verbatim>\<open>str\<close> or \<^verbatim>\<open>int\<close> (a \<^verbatim>\<open>bool\<close> is an
  \<^verbatim>\<open>int\<close>), each through \<^verbatim>\<open>str()\<close>; the others are left out.\<close>

fun meeting_id_texts :: "json list \<Rightarrow> string list" where
  "meeting_id_texts [] = []"
| "meeting_id_texts (JString s # ids) = s # meeting_id_texts ids"
| "meeting_id_texts (JInt i # ids) = str_int i # meeting_id_texts ids"
| "meeting_id_texts (JBool b # ids) = (if b then ''True'' else ''False'') # meeting_id_texts ids"
| "meeting_id_texts (v # ids) = meeting_id_texts ids"

text \<open>One turn of the loop of lines 1508 to 1525: \<open>Inr None\<close> is \<^verbatim>\<open>continue\<close>.\<close>

definition cluster_of :: "env \<Rightarrow> json \<Rightarrow> exn + TopicCluster option" where
  "cluster_of E c =
     (case c of
        JObject kvs \<Rightarrow>
          (case py_or (dict_get kvs ''name'') (JString []) of
             JString s \<Rightarrow>
               (let name = strip s in
                if name = [] then Inr None
                else
                  (case py_iter (py_or (dict_get kvs ''meeting_ids'') (JArray [])) of
                     Inl e \<Rightarrow> Inl e
                   | Inr ids \<Rightarrow>
                       (case validate_optional_str E (dict_get kvs ''description'') of
                          Inl e \<Rightarrow> Inl e
                        | Inr descr \<Rightarrow>
                            Inr (Some (TopicCluster name descr (meeting_id_texts ids))))))
           | _ \<Rightarrow> Inl (Exception ''AttributeError''))
      | _ \<Rightarrow> Inr None)"

fun collect_clusters :: "env \<Rightarrow> json list \<Rightarrow> exn + TopicCluster list" where
  "collect_clusters E [] = Inr []"
| "collect_clusters E (c # cs) =
     (case cluster_of E c of
        Inl e \<Rightarrow> Inl e
      | Inr r \<Rightarrow>
          (case collect_clusters E cs of
             Inl e \<Rightarrow> Inl e
           | Inr clusters \<Rightarrow> Inr (case r of None \<Rightarrow> clusters | Some cl \<Rightarrow> cl # clusters)))"

text \<open>The body of the \<^verbatim>\<open>try\<close> of lines 1498 to 1525, and the handler's
  \<^verbatim>\<open>except Exception\<close> around it: the clusters of a reply text.\<close>

definition parse_clusters :: "env \<Rightarrow> string \<Rightarrow> exn + TopicCluster list" where
  "parse_clusters E raw =
     (case json_loads E (raw_json CHR ''{'' CHR ''}'' raw) of
        None \<Rightarrow> Inl (Exception ''JSONDecodeError'')
      | Some (JObject kvs) \<Rightarrow>
          (case py_iter (py_or (dict_get kvs ''clusters'') (JArray [])) of
             Inl e \<Rightarrow> Inl e
           | Inr cs \<Rightarrow> collect_clusters E cs)
      | Some _ \<Rightarrow> Inl (Exception ''AttributeError''))"

definition clusters_of_reply :: "env \<Rightarrow> string \<Rightarrow> TopicCluster list" where
  "clusters_of_reply E raw = (case parse_clusters E raw of Inl e \<Rightarrow> [] | Inr cs \<Rightarrow> cs)"

text \<open>\<^verbatim>\<open>ai_topics\<close>, lines 1447 to 1529.\<close>

definition ai_topics ::
  "env \<Rightarrow> string option \<Rightarrow> string option \<Rightarrow> world \<Rightarrow> (exn + TopicCluster list) \<times> world" where
  "ai_topics E authorization x_llm_api_key w =
     (case get_current_user_from_header authorization (users w) of
        Inl e \<Rightarrow> (Inl e, w)
      | Inr current_user \<Rightarrow>
          (let ms = recent_meetings (meetings w) (User.id' current_user) 50 in
           if ms = [] then (Inr [], w)
           else
             (case ollama_chat E (topics_prompt ms) x_llm_api_key (requests_sent w) of
                (Inl e, sent') \<Rightarrow> (Inl e, w\<lparr>requests_sent := sent'\<rparr>)
              | (Inr raw, sent') \<Rightarrow>
                  (Inr (clusters_of_reply E raw), w\<lparr>requests_sent := sent'\<rparr>))))"

section \<open>Calendar sync\<close>

text \<open>\<^verbatim>\<open>_get_calendar_service_for_user\<close>, lines 293 to 335; a successful refresh stores
  the new credentials on the user's row.\<close>

definition store_credentials :: "User \<Rightarrow> string option \<Rightarrow> world \<Rightarrow> world" where
  "store_credentials u refreshed w =
     (case refreshed of
        None \<Rightarrow> w
      | Some c \<Rightarrow>
          w\<lparr>users := map (\<lambda>x. if User.id' x = User.id' u then x\<lparr>google_creds_json := c\<rparr> else x)
                         (users w)\<rparr>)"

definition get_calendar_service_for_user :: "env \<Rightarrow> User \<Rightarrow> world \<Rightarrow> exn option \<times> world" where
  "get_calendar_service_for_user E u w =
     (if google_creds_json u = []
      then (Some (HTTPException 400 ''Google Calendar is not connected for this user.''), w)
      else
        (case google_credentials E (google_creds_json u) of
           CredsInvalid e \<Rightarrow>
             (Some (HTTPException 500 (''Failed to load Google credentials for user: '' @ e)), w)
         | RefreshFailed \<Rightarrow>
             (Some (HTTPException 401
                (''Failed to refresh Google credentials; '' @
                 ''please reconnect Google Calendar.'')), w)
         | BuildFailed refreshed e \<Rightarrow>
             (Some (HTTPException 500 (''Failed to initialize Google Calendar client: '' @ e)),
              store_credentials u refreshed w)
         | Service refreshed \<Rightarrow> (None, store_credentials u refreshed w)))"

text \<open>Lines 1559 to 1572: the start and the end of the event.\<close>

definition resolve_start :: "string option \<Rightarrow> Meeting \<Rightarrow> string" where
  "resolve_start payload_start_time m =
     or_str (opt_or payload_start_time (start_time m)) (isoformat (created_at m))"

definition one_hour_after :: "env \<Rightarrow> string \<Rightarrow> string" where
  "one_hour_after E start_iso =
     (case fromisoformat E start_iso of
        None \<Rightarrow> start_iso
      | Some dt_start \<Rightarrow>
          (case add_one_hour dt_start of
             Inl e \<Rightarrow> start_iso
           | Inr dt_end \<Rightarrow> isoformat dt_end))"

definition resolve_end :: "env \<Rightarrow> string option \<Rightarrow> Meeting \<Rightarrow> string \<Rightarrow> string" where
  "resolve_end E payload_end_time m start_iso =
     or_str (opt_or payload_end_time (end_time m)) (one_hour_after E start_iso)"

text \<open>Lines 1574 to 1584: the description snippet.\<close>

definition description_snippet :: "Meeting \<Rightarrow> string" where
  "description_snippet m =
     join_with ''\<newline>''
       ([''Meeting notes from AI Meeting Notes:'',
         ''Title: '' @ title m,
         ''Created at: '' @ isoformat (created_at m)] @
        (if str_truthy (summary m) then [[], ''Summary:'', or_str (summary m) []] else []))"

text \<open>\<^verbatim>\<open>a in b\<close> on strings, and lines 1601 to 1608: the new description of the
  event.\<close>

definition starts_with :: "string \<Rightarrow> string \<Rightarrow> bool" where
  "starts_with s t = (take (length s) t = s)"

fun is_substring :: "string \<Rightarrow> string \<Rightarrow> bool" where
  "is_substring s [] = (s = [])"
| "is_substring s (c # cs) = (starts_with s (c # cs) \<or> is_substring s cs)"

definition merge_description :: "string \<Rightarrow> string \<Rightarrow> string" where
  "merge_description snippet existing_desc =
     (if \<not> is_substring snippet existing_desc
      then (if existing_desc \<noteq> [] then existing_desc @ ''\<newline>\<newline>---\<newline>'' @ snippet
            else snippet)
      else existing_desc)"

text \<open>The calendar is a store of events by id: \<^verbatim>\<open>get\<close> finds the event or fails,
  \<^verbatim>\<open>update\<close> puts the body under the id and returns it with that id, \<^verbatim>\<open>insert\<close>
  stores the body under a new id.\<close>

definition events_get :: "env \<Rightarrow> string \<Rightarrow> world \<Rightarrow> string + event" where
  "events_get E eid w =
     (case calendar_fault E (EventsGet eid) of
        Some msg \<Rightarrow> Inl msg
      | None \<Rightarrow> (case map_of (calendar w) eid of None \<Rightarrow> Inl ''Not Found'' | Some ev \<Rightarrow> Inr ev))"

definition events_update :: "env \<Rightarrow> string \<Rightarrow> event \<Rightarrow> world \<Rightarrow> (string + event) \<times> world" where
  "events_update E eid body w =
     (case calendar_fault E (EventsUpdate eid body) of
        Some msg \<Rightarrow> (Inl msg, w)
      | None \<Rightarrow>
          (case map_of (calendar w) eid of
             None \<Rightarrow> (Inl ''Not Found'', w)
           | Some old \<Rightarrow>
               (let stored = body\<lparr>ev_id := Some eid\<rparr>
                in (Inr stored, w\<lparr>calendar := (eid, stored) # calendar w\<rparr>))))"

definition events_insert :: "env \<Rightarrow> event \<Rightarrow> world \<Rightarrow> (string + event) \<times> world" where
  "events_insert E body w =
     (case calendar_fault E (EventsInsert body) of
        Some msg \<Rightarrow> (Inl msg, w)
      | None \<Rightarrow>
          (let eid = new_event_id E (length (calendar w));
               stored = body\<lparr>ev_id := Some eid\<rparr>
           in (Inr stored, w\<lparr>calendar := (eid, stored) # calendar w\<rparr>)))"

text \<open>Lines 1587 to 1625: the notes go to the existing event.\<close>

definition sync_existing_event ::
  "env \<Rightarrow> Meeting \<Rightarrow> string \<Rightarrow> string \<Rightarrow> string \<Rightarrow> world \<Rightarrow> (exn + string option) \<times> world" where
  "sync_existing_event E m eid start_iso end_iso w =
     (case events_get E eid w of
        Inl msg \<Rightarrow>
          (Inl (HTTPException 400 (''Failed to load existing event '' @ eid @ '': '' @ msg)), w)
      | Inr ev \<Rightarrow>
          (let existing_desc = or_str (ev_description ev) [];
               new_desc = merge_description (description_snippet m) existing_desc;
               ev' = ev\<lparr>ev_description := Some new_desc,
                       ev_summary := (if \<not> str_truthy (ev_summary ev) then Some (title m)
                                      else ev_summary ev),
                       ev_start := Some (start_iso, ''UTC''),
                       ev_end := Some (end_iso, ''UTC'')\<rparr>
           in case events_update E eid ev' w of
                (Inl msg, w') \<Rightarrow> (Inl (Exception msg), w')
              | (Inr updated, w') \<Rightarrow> (Inr (opt_or (ev_id updated) (Some eid)), w')))"

text \<open>Lines 1627 to 1639: a new event.\<close>

definition sync_new_event ::
  "env \<Rightarrow> Meeting \<Rightarrow> string \<Rightarrow> string \<Rightarrow> world \<Rightarrow> (exn + string option) \<times> world" where
  "sync_new_event E m start_iso end_iso w =
     (let body = \<lparr>ev_id = None,
                  ev_summary = Some (title m),
                  ev_description = Some (description_snippet m),
                  ev_start = Some (start_iso, ''UTC''),
                  ev_end = Some (end_iso, ''UTC'')\<rparr>
      in case events_insert E body w of
           (Inl msg, w') \<Rightarrow> (Inl (Exception msg), w')
         | (Inr created, w') \<Rightarrow> (Inr (ev_id created), w'))"

text \<open>The row that \<^verbatim>\<open>.first()\<close> returned is the one the commit changes.\<close>

fun replace_first :: "('a \<Rightarrow> bool) \<Rightarrow> 'a \<Rightarrow> 'a list \<Rightarrow> 'a list" where
  "replace_first P y [] = []"
| "replace_first P y (x # xs) = (if P x then y # xs else x # replace_first P y xs)"

text \<open>\<^verbatim>\<open>sync_meeting_calendar\<close>, lines 1532 to 1653.\<close>

definition sync_meeting_calendar ::
  "env \<Rightarrow> string \<Rightarrow> string option \<Rightarrow> string option \<Rightarrow> string option \<Rightarrow> string option \<Rightarrow> world \<Rightarrow>
   (exn + meeting_dict) \<times> world" where
  "sync_meeting_calendar E meeting_id payload_event_id payload_start_time payload_end_time
       authorization w =
     (case get_current_user_from_header authorization (users w) of
        Inl e \<Rightarrow> (Inl e, w)
      | Inr current_user \<Rightarrow>
          (case get_calendar_service_for_user E current_user w of
             (Some e, w1) \<Rightarrow> (Inl e, w1)
           | (None, w1) \<Rightarrow>
               (let mine = (\<lambda>m. Meeting.id' m = meeting_id \<and>
                                 owner_id m = Some (User.id' current_user))
                in case find mine (meetings w1) of
                     None \<Rightarrow> (Inl (HTTPException 404 ''Meeting not found''), w1)
                   | Some meeting \<Rightarrow>
                       (let start_iso = resolve_start payload_start_time meeting;
                            end_iso = resolve_end E payload_end_time meeting start_iso
                        in case (if str_truthy payload_event_id
                                 then sync_existing_event E meeting (or_str payload_event_id [])
                                        start_iso end_iso w1
                                 else sync_new_event E meeting start_iso end_iso w1) of
                             (Inl e, w2) \<Rightarrow> (Inl e, w2)
                           | (Inr event_id, w2) \<Rightarrow>
                               if \<not> str_truthy event_id
                               then (Inl (HTTPException 500
                                            ''Failed to create or update calendar event.''), w2)
                               else
                                 (let meeting' = meeting\<lparr>calendar_event_id := event_id,
                                                          start_time := Some start_iso,
                                                          end_time := Some end_iso\<rparr>
                                  in (Inr (meeting_to_dict E meeting'),
                                      w2\<lparr>meetings :=
                                           replace_first mine meeting' (meetings w2)\<rparr>))))))"

text \<open>How often a text occurs in another, counting every position at which it
  starts.\<close>

fun occurrences :: "string \<Rightarrow> string \<Rightarrow> nat" where
  "occurrences s [] = (if s = [] then 1 else 0)"
| "occurrences s (c # cs) = (if starts_with s (c # cs) then 1 else 0) + occurrences s cs"

section \<open>An example environment\<close>

text \<open>
  A concrete environment and world, for evaluating the definitions on inputs.  The
  backend answers the two prompts about one transcript (for the key \<^verbatim>\<open>sk-no-summary\<close>
  the summary is over quota, for \<^verbatim>\<open>sk-expired\<close> the transcription is refused);
  \<open>example_loads\<close>,
  \<open>example_str\<close>, \<open>example_pydantic_str\<close> and \<open>example_fromisoformat\<close> agree with the
  Python library on the arguments the examples give them (the last on texts of the
  shape \<^verbatim>\<open>YYYY-MM-DDTHH:MM:SS\<close>) and are not meant beyond those.
\<close>

definition example_transcript :: string where
  "example_transcript =
     ''We decided to launch Friday. Alice will prepare the deck by Wednesday.''"

definition example_summary :: string where
  "example_summary = ''Launch on Friday.''"

definition example_items_text :: string where
  \<open>example_items_text =
     ''[{"task": " Prepare the deck ", "owner": "Alice", "due_date": "2024-01-17"}, {"task": "  "}]''\<close>

definition example_items_json :: json where
  "example_items_json =
     JArray [JObject [(''task'', JString '' Prepare the deck ''), (''owner'', JString ''Alice''),
                      (''due_date'', JString ''2024-01-17'')],
             JObject [(''task'', JString ''  '')]]"

definition example_items_reply :: string where
  "example_items_reply = ''Here are the action items:\<newline>'' @ example_items_text"

definition example_topics_text :: string where
  \<open>example_topics_text =
     ''{"clusters": [{"name": "", "meeting_ids": ["m1"]}, {"name": "Launch", "meeting_ids": []}, {"name": "Ops", "meeting_ids": ["m1", 7, null]}]}''\<close>

definition example_topics_json :: json where
  "example_topics_json =
     JObject [(''clusters'', JArray
       [JObject [(''name'', JString []), (''meeting_ids'', JArray [JString ''m1''])],
        JObject [(''name'', JString ''Launch''), (''meeting_ids'', JArray [])],
        JObject [(''name'', JString ''Ops''),
                 (''meeting_ids'', JArray [JString ''m1'', JInt 7, JNull])]])]"

definition chat_body :: "string \<Rightarrow> string" where
  \<open>chat_body content_text =
     ''{"choices": [{"message": {"content": '' @ dumps_str content_text @ ''}}]}''\<close>

definition chat_json :: "string \<Rightarrow> json" where
  "chat_json content_text =
     JObject [(''choices'', JArray [JObject [(''message'',
       JObject [(''content'', JString content_text)])]])]"

definition example_loads :: "string \<Rightarrow> json option" where
  "example_loads s =
     (if s = chat_body example_summary then Some (chat_json example_summary)
      else if s = chat_body example_items_reply then Some (chat_json example_items_reply)
      else if s = example_items_text then Some example_items_json
      else if s = example_topics_text then Some example_topics_json
      else if s = ''[]'' then Some (JArray [])
      else None)"

definition example_str :: "json \<Rightarrow> string" where
  "example_str v =
     (case v of
        JNull \<Rightarrow> ''None''
      | JBool b \<Rightarrow> (if b then ''True'' else ''False'')
      | JInt i \<Rightarrow> str_int i
      | _ \<Rightarrow> [])"

definition example_pydantic_str :: "json \<Rightarrow> string option" where
  "example_pydantic_str v = (case v of JInt i \<Rightarrow> Some (str_int i) | _ \<Rightarrow> None)"

fun parse_digits :: "nat \<Rightarrow> string \<Rightarrow> nat option" where
  "parse_digits acc [] = Some acc"
| "parse_digits acc (c # cs) =
     (if c \<in> set ''0123456789''
      then parse_digits (10 * acc + length (takeWhile (\<lambda>d. d \<noteq> c) ''0123456789'')) cs
      else None)"

definition example_fromisoformat :: "string \<Rightarrow> datetime option" where
  "example_fromisoformat s =
     (if length s = 19 \<and> s ! 4 = CHR ''-'' \<and> s ! 7 = CHR ''-'' \<and> s ! 10 = CHR ''T'' \<and>
         s ! 13 = CHR '':'' \<and> s ! 16 = CHR '':''
      then
        (case (parse_digits 0 (take 4 s), parse_digits 0 (take 2 (drop 5 s)),
               parse_digits 0 (take 2 (drop 8 s)), parse_digits 0 (take 2 (drop 11 s)),
               parse_digits 0 (take 2 (drop 14 s)), parse_digits 0 (take 2 (drop 17 s))) of
           (Some y, Some mo, Some d, Some h, Some mi, Some se) \<Rightarrow>
             if 1 \<le> y \<and> 1 \<le> mo \<and> mo \<le> 12 \<and> 1 \<le> d \<and> d \<le> days_in_month y mo \<and>
                h < 24 \<and> mi < 60 \<and> se < 60
             then Some \<lparr>year = y, month = mo, day = d, hour = h, minute = mi, second = se,
                        microsecond = 0, tzinfo = None\<rparr>
             else None
         | _ \<Rightarrow> None)
      else None)"

definition example_backend :: "request \<Rightarrow> string + http_response" where
  "example_backend req =
     (case req of
        ChatCompletion url key model prompt \<Rightarrow>
          if prompt = summary_prompt example_transcript
          then (if key = ''sk-no-summary''
                then Inr \<lparr>status_code = 429, resp_text = ''quota exceeded''\<rparr>
                else Inr \<lparr>status_code = 200, resp_text = chat_body example_summary\<rparr>)
          else if prompt = action_items_prompt example_transcript
          then Inr \<lparr>status_code = 200, resp_text = chat_body example_items_reply\<rparr>
          else Inl ''timed out''
      | AudioTranscription url key model path \<Rightarrow>
          if key = ''sk-expired''
          then Inr \<lparr>status_code = 401, resp_text = ''invalid api key''\<rparr>
          else Inr \<lparr>status_code = 200, resp_text = example_transcript\<rparr>)"

definition example_env :: env where
  "example_env =
     \<lparr>LLM_API_BASE = ''https://api.openai.com/v1'',
      LLM_API_KEY = None,
      LLM_MODEL_NAME = ''gpt-4o-mini'',
      STT_MODEL_NAME = ''whisper-1'',
      AUDIO_DIR = ''/app/audio'',
      json_loads = example_loads,
      py_str = example_str,
      pydantic_str = example_pydantic_str,
      fromisoformat = example_fromisoformat,
      http_post = example_backend,
      file_write = (\<lambda>path audio. None),
      google_credentials = (\<lambda>creds. Service None),
      calendar_fault = (\<lambda>call. None),
      new_event_id = (\<lambda>n. ''ev-new-'' @ str_nat n)\<rparr>"

definition example_user :: User where
  "example_user =
     \<lparr>User.id' = ''u1'', email = ''alice@example.com'', google_sub = None,
      google_creds_json = ''{}'', api_token = ''tok-alice''\<rparr>"

definition example_created :: datetime where
  "example_created =
     \<lparr>year = 2024, month = 1, day = 15, hour = 9, minute = 5, second = 0, microsecond = 0,
      tzinfo = None\<rparr>"

definition example_meeting :: Meeting where
  "example_meeting =
     \<lparr>Meeting.id' = ''m1'', title = ''Launch'', folder_id = None,
      created_at = example_created, start_time = None, end_time = None,
      status = Some ''completed'', transcript = Some example_transcript,
      summary = None, audio_path = Some ''audio/m1.wav'', calendar_event_id = None,
      action_items = Some ''[]'', is_favorite = Some False, owner_id = Some ''u1''\<rparr>"

definition empty_world :: world where
  "empty_world =
     \<lparr>users = [example_user], meetings = [], requests_sent = [], files = [], calendar = []\<rparr>"

section \<open>The notions the properties are stated in\<close>

text \<open>The task text of an element of the model's array: the trimmed value of its
  \<^verbatim>\<open>task\<close> key, when the element is a dict and that value is a string that is not
  blank.\<close>

definition task_text :: "json \<Rightarrow> string option" where
  "task_text obj =
     (case obj of
        JObject kvs \<Rightarrow>
          (case dict_get kvs ''task'' of
             JString s \<Rightarrow> if strip s = [] then None else Some (strip s)
           | _ \<Rightarrow> None)
      | _ \<Rightarrow> None)"

definition has_task :: "json \<Rightarrow> bool" where
  "has_task obj = (task_text obj \<noteq> None)"

text \<open>The \<^verbatim>\<open>status\<close> of an element is missing (or \<^verbatim>\<open>null\<close>) or the empty string.\<close>

definition status_absent :: "json \<Rightarrow> bool" where
  "status_absent obj =
     (case obj of
        JObject kvs \<Rightarrow> dict_get kvs ''status'' = JNull \<or> dict_get kvs ''status'' = JString []
      | _ \<Rightarrow> False)"

text \<open>An action item is the one made from an element: its task is the element's task
  text, and its status is \<^verbatim>\<open>open\<close> when the element has none.\<close>

definition item_matches :: "json \<Rightarrow> ActionItem \<Rightarrow> bool" where
  "item_matches obj item =
     (task_text obj = Some (task item) \<and>
      (status_absent obj \<longrightarrow> ActionItem.status item = Some ''open''))"

text \<open>A projected item is the normal form of a stored element: the element is a dict,
  \<^verbatim>\<open>task\<close> is its value or \<^verbatim>\<open>""\<close> when the key is missing, \<^verbatim>\<open>status\<close> its value
  or \<^verbatim>\<open>"open"\<close> when the key is missing, \<^verbatim>\<open>owner\<close> and \<^verbatim>\<open>due_date\<close> their values or
  \<^verbatim>\<open>None\<close>.\<close>

definition has_key :: "(string \<times> json) list \<Rightarrow> string \<Rightarrow> bool" where
  "has_key kvs k = (k \<in> set (map fst kvs))"

definition normalized :: "json \<Rightarrow> item_dict \<Rightarrow> bool" where
  "normalized obj d =
     (case obj of
        JObject kvs \<Rightarrow>
          item_task d = (if has_key kvs ''task'' then dict_get kvs ''task'' else JString []) \<and>
          item_status d =
            (if has_key kvs ''status'' then dict_get kvs ''status'' else JString ''open'') \<and>
          item_owner d = dict_get kvs ''owner'' \<and>
          item_due_date d = dict_get kvs ''due_date''
      | _ \<Rightarrow> False)"

definition is_dict :: "json \<Rightarrow> bool" where
  "is_dict v = (case v of JObject kvs \<Rightarrow> True | _ \<Rightarrow> False)"

text \<open>The name of a candidate cluster: the trimmed value of its \<^verbatim>\<open>name\<close> key, when
  the candidate is a dict and that value is a string that is not blank.  The ids a
  cluster keeps are those that are strings or integers (a JSON boolean is a Python
  \<^verbatim>\<open>int\<close>), as text.\<close>

definition cluster_name :: "json \<Rightarrow> string option" where
  "cluster_name c =
     (case c of
        JObject kvs \<Rightarrow>
          (case dict_get kvs ''name'' of
             JString s \<Rightarrow> if strip s = [] then None else Some (strip s)
           | _ \<Rightarrow> None)
      | _ \<Rightarrow> None)"

definition has_name :: "json \<Rightarrow> bool" where
  "has_name c = (cluster_name c \<noteq> None)"

definition id_kept :: "json \<Rightarrow> bool" where
  "id_kept v = (case v of JString s \<Rightarrow> True | JInt i \<Rightarrow> True | JBool b \<Rightarrow> True | _ \<Rightarrow> False)"

definition id_text :: "json \<Rightarrow> string" where
  "id_text v =
     (case v of
        JString s \<Rightarrow> s
      | JInt i \<Rightarrow> str_int i
      | JBool b \<Rightarrow> (if b then ''True'' else ''False'')
      | _ \<Rightarrow> [])"

definition listed_ids :: "json \<Rightarrow> json list" where
  "listed_ids c =
     (case c of
        JObject kvs \<Rightarrow>
          (case py_iter (py_or (dict_get kvs ''meeting_ids'') (JArray [])) of
             Inl e \<Rightarrow> []
           | Inr ids \<Rightarrow> ids)
      | _ \<Rightarrow> [])"

definition cluster_matches :: "json \<Rightarrow> TopicCluster \<Rightarrow> bool" where
  "cluster_matches c cl =
     (case cl of
        TopicCluster name descr ids \<Rightarrow>
          cluster_name c = Some name \<and> ids = map id_text (filter id_kept (listed_ids c)))"

text \<open>A well-formed timestamp, and the seconds from the start of year 1 to it (its
  wall-clock reading, whatever the offset).\<close>

definition valid_datetime :: "datetime \<Rightarrow> bool" where
  "valid_datetime d =
     (1 \<le> year d \<and> year d \<le> 9999 \<and> 1 \<le> month d \<and> month d \<le> 12 \<and>
      1 \<le> day d \<and> day d \<le> days_in_month (year d) (month d) \<and>
      hour d < 24 \<and> minute d < 60 \<and> second d < 60 \<and> microsecond d < 1000000)"

fun days_before_month :: "nat \<Rightarrow> nat \<Rightarrow> nat" where
  "days_before_month y 0 = 0"
| "days_before_month y (Suc m) =
     (if m = 0 then 0 else days_before_month y m + days_in_month y m)"

fun days_before_year :: "nat \<Rightarrow> nat" where
  "days_before_year 0 = 0"
| "days_before_year (Suc y) =
     (if y = 0 then 0 else days_before_year y + (if is_leap y then 366 else 365))"

definition seconds_of :: "datetime \<Rightarrow> nat" where
  "seconds_of d =
     (((days_before_year (year d) + days_before_month (year d) (month d) + (day d - 1)) * 24
        + hour d) * 60 + minute d) * 60 + second d"

text \<open>A credential that is absent, or nothing but whitespace.\<close>

definition blank :: "string option \<Rightarrow> bool" where
  "blank k = (case k of None \<Rightarrow> True | Some s \<Rightarrow> strip s = [])"

(*DEFS-END*)

section \<open>Properties of the string helpers\<close>

lemma strip_Nil: "strip [] = []"
  by (simp add: strip_def lstrip_def rstrip_def)

lemma strip_idem: "strip (strip s) = strip s"
proof -
  define t where "t = dropWhile isspace s"
  define u where "u = rev (dropWhile isspace (rev t))"
  have su: "strip s = u" by (simp add: strip_def lstrip_def rstrip_def t_def u_def)
  have r: "rev (dropWhile isspace (rev u)) = u"
    by (simp add: u_def)
  have l: "dropWhile isspace u = u"
  proof (cases "u = []")
    case True
    then show ?thesis by simp
  next
    case False
    have "rev t = takeWhile isspace (rev t) @ dropWhile isspace (rev t)" by simp
    then have "t = u @ rev (takeWhile isspace (rev t))"
      unfolding u_def by (metis rev_append rev_rev_ident)
    with False have ht: "hd t = hd u" and tn: "t \<noteq> []" by (metis hd_append2, auto)
    from tn have "\<not> isspace (hd t)" unfolding t_def by (rule hd_dropWhile)
    with ht False show ?thesis by (simp add: dropWhile_eq_self_iff)
  qed
  show ?thesis
    unfolding su unfolding strip_def lstrip_def rstrip_def l r ..
qed





lemma resolve_key_blank:
  assumes "blank api_key" and "blank (LLM_API_KEY E)"
  shows "resolve_key E api_key = []"
  using assms
  by (auto simp: resolve_key_def blank_def opt_or_def or_str_def str_truthy_def strip_Nil
      split: option.splits)

section \<open>C9: no credential, no request\<close>

text \<open>
  Claim C9.  For the chat gateway and for the transcription gateway: when the credential
  the caller supplies and the process-wide default are both absent or whitespace-only,
  the call fails with the gateway's "no API key" error (HTTP 400), and the list of
  requests sent is the one it started with: the error comes before any outbound
  request.
\<close>

theorem no_credential_before_request:
  assumes "blank api_key" and "blank (LLM_API_KEY E)"
  shows "ollama_chat E prompt api_key sent = (Inl no_key_chat, sent) \<and>
         transcribe_audio E file_path api_key sent = (Inl no_key_transcribe, sent)"
  using resolve_key_blank [OF assms]
  by (simp add: ollama_chat_def transcribe_audio_def)

theorem no_credential_before_request_witness:
  "blank (Some ''   '') \<and> blank (LLM_API_KEY example_env) \<and>
   ollama_chat example_env ''Hello'' (Some ''   '') [] = (Inl no_key_chat, []) \<and>
   transcribe_audio example_env ''/app/audio/a.wav'' (Some ''   '') [] =
     (Inl no_key_transcribe, [])"
proof -
  have a: "blank (Some ''   '')"
    by (simp add: blank_def strip_def lstrip_def rstrip_def isspace_def)
  have b: "blank (LLM_API_KEY example_env)"
    by (simp add: blank_def example_env_def)
  from no_credential_before_request [OF a b] a b show ?thesis by simp
qed

section \<open>C3: what the bracket scan selects\<close>




section \<open>C4: the action-item extractor never raises\<close>

lemma validate_status_default:
  "validate_optional_str E (py_or v (JString ''open'')) = Inr st \<Longrightarrow>
   st \<noteq> None \<and> ((v = JNull \<or> v = JString []) \<longrightarrow> st = Some ''open'')"
  by (cases v) (auto simp: validate_optional_str_def py_or_def split: option.splits if_splits)

lemma action_item_of_task:
  "action_item_of E obj = Inr r \<Longrightarrow> map_option task r = task_text obj"
  unfolding action_item_of_def task_text_def py_or_def
  by (auto split: json.splits if_splits sum.splits simp: strip_Nil Let_def)

lemma action_item_of_Some:
  assumes "action_item_of E obj = Inr (Some item)"
  shows "item_matches obj item \<and> has_task obj \<and> ActionItem.status item \<noteq> None"
proof -
  from action_item_of_task [OF assms] have t: "task_text obj = Some (task item)" by simp
  from t obtain kvs where o: "obj = JObject kvs"
    by (auto simp: task_text_def split: json.splits)
  from assms o obtain st where
    st: "validate_optional_str E (py_or (dict_get kvs ''status'') (JString ''open'')) = Inr st"
    and ist: "ActionItem.status item = st"
    unfolding action_item_of_def
    by (auto split: json.splits if_splits sum.splits simp: Let_def)
  from validate_status_default [OF st] ist o t show ?thesis
    by (auto simp: item_matches_def has_task_def status_absent_def)
qed

lemma action_item_of_None:
  "action_item_of E obj = Inr None \<Longrightarrow> \<not> has_task obj"
  using action_item_of_task [of E obj None] by (simp add: has_task_def)

lemma collect_action_items_matches:
  "collect_action_items E objs = Inr items \<Longrightarrow>
   list_all2 item_matches (filter has_task objs) items \<and>
   (\<forall>item \<in> set items. ActionItem.status item \<noteq> None)"
proof (induction objs arbitrary: items)
  case Nil
  then show ?case by simp
next
  case (Cons obj objs)
  from Cons.prems obtain r rest where
    r: "action_item_of E obj = Inr r" and
    rest: "collect_action_items E objs = Inr rest" and
    items: "items = (case r of None \<Rightarrow> rest | Some item \<Rightarrow> item # rest)"
    by (auto split: sum.splits)
  note IH = Cons.IH [OF rest]
  show ?case
  proof (cases r)
    case None
    with r have "\<not> has_task obj" by (simp add: action_item_of_None)
    with IH items None show ?thesis by simp
  next
    case (Some item)
    with r have "item_matches obj item \<and> has_task obj \<and> ActionItem.status item \<noteq> None"
      by (simp add: action_item_of_Some)
    with IH items Some show ?thesis by simp
  qed
qed

lemma task_text_trimmed: "task_text obj = Some t \<Longrightarrow> t \<noteq> [] \<and> strip t = t"
  by (auto simp: task_text_def strip_idem split: json.splits if_splits)

text \<open>
  Claim C4.  For every transcript and every reply text that the chat gateway returns, the
  action-item extractor returns a list and the requests sent are those of the gateway
  call; no exception leaves it.  Every returned item has a task that is not empty and is
  already trimmed, and a status.  The list is empty (a reply that does not parse, a parsed
  value that is not a list, or an element that raises), or the reply parsed to a list and
  the items are, one for one and in order, those of the elements that have a task text:
  elements without one are skipped, each item's task is its element's trimmed task, and
  its status is \<^verbatim>\<open>open\<close> where the element's status is missing or empty.
\<close>

theorem action_item_extractor_never_raises:
  assumes "ollama_chat E (action_items_prompt text) api_key sent = (Inr raw, sent')"
  shows "\<exists>items.
           extract_action_items_via_llama E text api_key sent = (Inr items, sent') \<and>
           (\<forall>item \<in> set items.
              task item \<noteq> [] \<and> strip (task item) = task item \<and>
              ActionItem.status item \<noteq> None) \<and>
           (items = [] \<or>
            (\<exists>objs. json_loads E (raw_json CHR ''['' CHR '']'' raw) = Some (JArray objs) \<and>
                    list_all2 item_matches (filter has_task objs) items))"
proof (cases "parse_action_items E raw")
  case (Inl e)
  with assms show ?thesis by (simp add: extract_action_items_via_llama_def)
next
  case (Inr items)
  with assms have res:
    "extract_action_items_via_llama E text api_key sent = (Inr items, sent')"
    by (simp add: extract_action_items_via_llama_def)
  show ?thesis
  proof (cases "items = []")
    case True
    with res show ?thesis by simp
  next
    case False
    with Inr obtain objs where
      l: "json_loads E (raw_json CHR ''['' CHR '']'' raw) = Some (JArray objs)" and
      c: "collect_action_items E objs = Inr items"
      by (auto simp: parse_action_items_def split: option.splits json.splits)
    from collect_action_items_matches [OF c] have
      m: "list_all2 item_matches (filter has_task objs) items" and
      s: "\<forall>item \<in> set items. ActionItem.status item \<noteq> None"
      by simp_all
    have t: "task item \<noteq> [] \<and> strip (task item) = task item" if "item \<in> set items" for item
    proof -
      from that m obtain obj where "item_matches obj item"
        by (auto simp: list_all2_conv_all_nth in_set_conv_nth)
      then have tt: "task_text obj = Some (task item)" by (simp add: item_matches_def)
      then show ?thesis by (rule task_text_trimmed)
    qed
    from res l m s t show ?thesis by auto
  qed
qed

theorem action_item_extractor_never_raises_witness:
  "ollama_chat example_env (action_items_prompt example_transcript) (Some ''sk-test'') [] =
     (Inr example_items_reply,
      [ChatCompletion ''https://api.openai.com/v1/chat/completions'' ''sk-test'' ''gpt-4o-mini''
         (action_items_prompt example_transcript)]) \<and>
   extract_action_items_via_llama example_env example_transcript (Some ''sk-test'') [] =
     (Inr [\<lparr>task = ''Prepare the deck'', owner = Some ''Alice'',
             due_date = Some ''2024-01-17'', status = Some ''open''\<rparr>],
      [ChatCompletion ''https://api.openai.com/v1/chat/completions'' ''sk-test'' ''gpt-4o-mini''
         (action_items_prompt example_transcript)])"
proof -
  have h: "ollama_chat example_env (action_items_prompt example_transcript) (Some ''sk-test'') [] =
     (Inr example_items_reply,
      [ChatCompletion ''https://api.openai.com/v1/chat/completions'' ''sk-test'' ''gpt-4o-mini''
         (action_items_prompt example_transcript)])"
    by code_simp
  have e: "extract_action_items_via_llama example_env example_transcript (Some ''sk-test'') [] =
     (Inr [\<lparr>task = ''Prepare the deck'', owner = Some ''Alice'',
             due_date = Some ''2024-01-17'', status = Some ''open''\<rparr>],
      [ChatCompletion ''https://api.openai.com/v1/chat/completions'' ''sk-test'' ''gpt-4o-mini''
         (action_items_prompt example_transcript)])"
    by code_simp
  from action_item_extractor_never_raises [OF h] h e show ?thesis by simp
qed

section \<open>C10: the projection always has a list of action items\<close>

lemma map_of_rev_None: "map_of (rev kvs) k = None \<longleftrightarrow> \<not> has_key kvs k"
  by (simp add: has_key_def map_of_eq_None_iff)

lemma dict_get_default_present:
  "has_key kvs k \<Longrightarrow> dict_get_default kvs k d = dict_get kvs k"
  using map_of_rev_None [of kvs k]
  by (auto simp: dict_get_def dict_get_default_def split: option.splits)

lemma dict_get_default_missing:
  "\<not> has_key kvs k \<Longrightarrow> dict_get_default kvs k d = d"
  using map_of_rev_None [of kvs k]
  by (auto simp: dict_get_default_def split: option.splits)

lemma normalized_item:
  "normalized (JObject kvs)
     \<lparr>item_task = dict_get_default kvs ''task'' (JString []),
      item_owner = dict_get kvs ''owner'',
      item_due_date = dict_get kvs ''due_date'',
      item_status = dict_get_default kvs ''status'' (JString ''open'')\<rparr>"
  by (simp add: normalized_def dict_get_default_present dict_get_default_missing)

lemma item_dicts_normalized:
  "item_dicts xs = Inr items \<Longrightarrow> list_all2 normalized xs items"
proof (induction xs arbitrary: items rule: item_dicts.induct)
  case 1
  then show ?case by simp
next
  case (2 kvs rest)
  then show ?case
    using normalized_item [of kvs] by (auto split: sum.splits)
qed simp_all

lemma item_dicts_of_dicts:
  "\<forall>x \<in> set xs. is_dict x \<Longrightarrow> \<exists>items. item_dicts xs = Inr items"
proof (induction xs)
  case Nil
  then show ?case by simp
next
  case (Cons x xs)
  then obtain kvs items where "x = JObject kvs" and "item_dicts xs = Inr items"
    by (auto simp: is_dict_def split: json.splits)
  then show ?case by simp
qed

text \<open>
  Claim C10.  \<open>meeting_to_dict\<close> is a total function: it has a value for every stored
  meeting, and that value has a list of action items.  The list is empty when the stored
  field is absent (or the empty text), when any exception leaves the \<^verbatim>\<open>try\<close> block, and
  in particular when the stored text does not parse as JSON.  When the text parses to a
  list of dicts, the projected items are their normal forms, one for one and in order:
  \<^verbatim>\<open>task\<close> is the element's value or \<^verbatim>\<open>""\<close> when the key is missing, \<^verbatim>\<open>status\<close> the
  element's value or \<^verbatim>\<open>"open"\<close> when the key is missing.
\<close>

theorem meeting_to_dict_action_items:
  "(\<not> str_truthy (action_items m) \<longrightarrow> d_action_items (meeting_to_dict E m) = []) \<and>
   (\<forall>s e. action_items m = Some s \<and> parse_stored_items E s = Inl e \<longrightarrow>
      d_action_items (meeting_to_dict E m) = []) \<and>
   (\<forall>s. action_items m = Some s \<and> json_loads E s = None \<longrightarrow>
      d_action_items (meeting_to_dict E m) = []) \<and>
   (\<forall>s objs. action_items m = Some s \<and> s \<noteq> [] \<and> json_loads E s = Some (JArray objs) \<and>
      (\<forall>obj \<in> set objs. is_dict obj) \<longrightarrow>
      list_all2 normalized objs (d_action_items (meeting_to_dict E m)))"
proof (intro conjI allI impI)
  assume "\<not> str_truthy (action_items m)"
  then show "d_action_items (meeting_to_dict E m) = []"
    by (simp add: meeting_to_dict_def)
next
  fix s e
  assume "action_items m = Some s \<and> parse_stored_items E s = Inl e"
  then show "d_action_items (meeting_to_dict E m) = []"
    by (simp add: meeting_to_dict_def or_str_def str_truthy_def)
next
  fix s
  assume "action_items m = Some s \<and> json_loads E s = None"
  then show "d_action_items (meeting_to_dict E m) = []"
    by (simp add: meeting_to_dict_def or_str_def str_truthy_def parse_stored_items_def)
next
  fix s objs
  assume a: "action_items m = Some s \<and> s \<noteq> [] \<and> json_loads E s = Some (JArray objs) \<and>
      (\<forall>obj \<in> set objs. is_dict obj)"
  then obtain items where i: "item_dicts objs = Inr items"
    using item_dicts_of_dicts by blast
  with a have "d_action_items (meeting_to_dict E m) = items"
    by (simp add: meeting_to_dict_def or_str_def str_truthy_def parse_stored_items_def)
  with item_dicts_normalized [OF i] show
    "list_all2 normalized objs (d_action_items (meeting_to_dict E m))"
    by simp
qed

theorem meeting_to_dict_action_items_witness:
  "action_items (example_meeting\<lparr>action_items := Some example_items_text\<rparr>) =
     Some example_items_text \<and>
   example_items_text \<noteq> [] \<and>
   json_loads example_env example_items_text = Some example_items_json \<and>
   list_all2 normalized
     [JObject [(''task'', JString '' Prepare the deck ''), (''owner'', JString ''Alice''),
               (''due_date'', JString ''2024-01-17'')],
      JObject [(''task'', JString ''  '')]]
     (d_action_items (meeting_to_dict example_env
        (example_meeting\<lparr>action_items := Some example_items_text\<rparr>))) \<and>
   d_action_items (meeting_to_dict example_env
       (example_meeting\<lparr>action_items := Some example_items_text\<rparr>)) =
     [\<lparr>item_task = JString '' Prepare the deck '', item_owner = JString ''Alice'',
       item_due_date = JString ''2024-01-17'', item_status = JString ''open''\<rparr>,
      \<lparr>item_task = JString ''  '', item_owner = JNull, item_due_date = JNull,
       item_status = JString ''open''\<rparr>] \<and>
   d_action_items (meeting_to_dict example_env (example_meeting\<lparr>action_items := None\<rparr>)) = []"
proof -
  let ?m = "example_meeting\<lparr>action_items := Some example_items_text\<rparr>"
  let ?objs = "[JObject [(''task'', JString '' Prepare the deck ''), (''owner'', JString ''Alice''),
               (''due_date'', JString ''2024-01-17'')],
      JObject [(''task'', JString ''  '')]]"
  have 1: "action_items ?m = Some example_items_text" by simp
  have 2: "example_items_text \<noteq> []" by (simp add: example_items_text_def)
  have 3: "json_loads example_env example_items_text = Some example_items_json"
    by code_simp
  have l3: "json_loads example_env example_items_text = Some (JArray ?objs)"
    using 3 by (simp add: example_items_json_def)
  have d: "\<forall>obj \<in> set ?objs. is_dict obj" by (simp add: is_dict_def)
  have 4: "d_action_items (meeting_to_dict example_env ?m) =
     [\<lparr>item_task = JString '' Prepare the deck '', item_owner = JString ''Alice'',
       item_due_date = JString ''2024-01-17'', item_status = JString ''open''\<rparr>,
      \<lparr>item_task = JString ''  '', item_owner = JNull, item_due_date = JNull,
       item_status = JString ''open''\<rparr>]"
    by code_simp
  have 5: "\<not> str_truthy (action_items (example_meeting\<lparr>action_items := None\<rparr>))"
    by (simp add: str_truthy_def)
  from meeting_to_dict_action_items
         [of "example_meeting\<lparr>action_items := None\<rparr>" example_env] 5
  have 6: "d_action_items (meeting_to_dict example_env
             (example_meeting\<lparr>action_items := None\<rparr>)) = []"
    by blast
  from meeting_to_dict_action_items [of ?m example_env] 1 2 l3 d
  have 7: "list_all2 normalized ?objs (d_action_items (meeting_to_dict example_env ?m))"
    by blast
  from 1 2 3 4 6 7 show ?thesis by simp
qed

section \<open>C1 and C2: ingestion degrades instead of failing\<close>

lemma dumps_items_Nil: "dumps_items [] = ''[]''"
  by (simp add: dumps_items_def)

lemma create_meeting_after_enrichment:
  assumes saved: "file_write E (os_path_join (AUDIO_DIR E) (uuid4 @ ''.wav'')) audio = None"
    and enriched: "enrichment E (os_path_join (AUDIO_DIR E) (uuid4 @ ''.wav'')) x_llm_api_key
                     (requests_sent w) = ((tr, sm, items), sent')"
  shows "create_meeting_with_audio E uuid4 utcnow ttl fid st et ce audio authorization
             x_llm_api_key w =
           (let w2 = w\<lparr>files := files w @
                         [(os_path_join (AUDIO_DIR E) (uuid4 @ ''.wav''), audio)],
                       requests_sent := sent'\<rparr>
            in case get_current_user_from_header authorization (users w) of
                 Inl err \<Rightarrow> (Inl err, w2)
               | Inr u \<Rightarrow>
                   (let m = \<lparr>Meeting.id' = uuid4, title = ttl, folder_id = fid,
                              created_at = utcnow, start_time = st, end_time = et,
                              status = Some ''completed'', transcript = Some tr, summary = sm,
                              audio_path = Some (os_path_join ''audio'' (uuid4 @ ''.wav'')),
                              calendar_event_id = ce,
                              action_items = Some (dumps_items items),
                              is_favorite = Some False, owner_id = Some (User.id' u)\<rparr>
                    in (Inr (meeting_to_dict E m), w2\<lparr>meetings := meetings w @ [m]\<rparr>)))"
  using assms
  by (auto simp: create_meeting_with_audio_def save_upload_to_wav_def Let_def
      split: sum.splits)




text \<open>
  Claim C2.  For every audio-upload request whose audio was written and whose
  transcription succeeds, when the summary generation or the action-item extraction
  raises (either one, also when the other returned a result): if the Authorization header
  resolves to a user, the request stores a meeting with the transcript, no summary and the
  JSON text \<^verbatim>\<open>[]\<close> for its action items, and returns its projection; otherwise the
  request ends with the authentication error and stores no meeting.
\<close>

theorem fan_out_failure_discards_both:
  assumes saved: "file_write E (os_path_join (AUDIO_DIR E) (uuid4 @ ''.wav'')) audio = None"
    and transcribed: "transcribe_audio E (os_path_join (AUDIO_DIR E) (uuid4 @ ''.wav''))
                   x_llm_api_key (requests_sent w) = (Inr tr, s1)"
    and summarized: "generate_summary E tr x_llm_api_key s1 = (r1, s2)"
    and extracted: "extract_action_items_via_llama E tr x_llm_api_key s2 = (r2, s3)"
    and one_failed: "isl r1 \<or> isl r2"
  shows "case get_current_user_from_header authorization (users w) of
           Inl err \<Rightarrow>
             (\<exists>w'. create_meeting_with_audio E uuid4 utcnow ttl fid st et ce audio authorization
                      x_llm_api_key w = (Inl err, w') \<and>
                    meetings w' = meetings w)
         | Inr u \<Rightarrow>
             (\<exists>m w'. create_meeting_with_audio E uuid4 utcnow ttl fid st et ce audio
                        authorization x_llm_api_key w = (Inr (meeting_to_dict E m), w') \<and>
                      meetings w' = meetings w @ [m] \<and>
                      status m = Some ''completed'' \<and> transcript m = Some tr \<and>
                      summary m = None \<and> action_items m = Some ''[]'')"
proof -
  from transcribed summarized extracted one_failed have
    "enrichment E (os_path_join (AUDIO_DIR E) (uuid4 @ ''.wav'')) x_llm_api_key
       (requests_sent w) = ((tr, None, []), s3)"
    by (auto simp: enrichment_def isl_def split: sum.splits)
  from create_meeting_after_enrichment [OF saved this, of utcnow ttl fid st et ce authorization]
  show ?thesis
    by (auto simp: Let_def dumps_items_Nil split: sum.splits)
qed

theorem fan_out_failure_discards_both_witness:
  "file_write example_env (os_path_join (AUDIO_DIR example_env) (''id1'' @ ''.wav'')) ''RIFF'' = None \<and>
   transcribe_audio example_env (os_path_join (AUDIO_DIR example_env) (''id1'' @ ''.wav''))
       (Some ''sk-no-summary'') (requests_sent empty_world) =
     (Inr example_transcript,
      [AudioTranscription ''https://api.openai.com/v1/audio/transcriptions'' ''sk-no-summary''
         ''whisper-1'' ''/app/audio/id1.wav'']) \<and>
   fst (generate_summary example_env example_transcript (Some ''sk-no-summary'')
      [AudioTranscription ''https://api.openai.com/v1/audio/transcriptions'' ''sk-no-summary''
         ''whisper-1'' ''/app/audio/id1.wav'']) =
     Inl (HTTPException 500 ''LLM error 429: quota exceeded'') \<and>
   fst (extract_action_items_via_llama example_env example_transcript (Some ''sk-no-summary'')
      (snd (generate_summary example_env example_transcript (Some ''sk-no-summary'')
      [AudioTranscription ''https://api.openai.com/v1/audio/transcriptions'' ''sk-no-summary''
         ''whisper-1'' ''/app/audio/id1.wav'']))) =
     Inr [\<lparr>task = ''Prepare the deck'', owner = Some ''Alice'',
            due_date = Some ''2024-01-17'', status = Some ''open''\<rparr>] \<and>
   get_current_user_from_header (Some ''Bearer tok-alice'') (users empty_world) =
     Inr example_user \<and>
   (\<exists>m w'. create_meeting_with_audio example_env ''id1'' example_created ''Launch'' None None
               None None ''RIFF'' (Some ''Bearer tok-alice'') (Some ''sk-no-summary'')
               empty_world = (Inr (meeting_to_dict example_env m), w') \<and>
            meetings w' = meetings empty_world @ [m] \<and>
            status m = Some ''completed'' \<and> transcript m = Some example_transcript \<and>
            summary m = None \<and> action_items m = Some ''[]'')"
proof -
  let ?s1 = "[AudioTranscription ''https://api.openai.com/v1/audio/transcriptions''
                ''sk-no-summary'' ''whisper-1'' ''/app/audio/id1.wav'']"
  let ?g = "generate_summary example_env example_transcript (Some ''sk-no-summary'') ?s1"
  let ?x = "extract_action_items_via_llama example_env example_transcript
              (Some ''sk-no-summary'') (snd ?g)"
  have s: "file_write example_env (os_path_join (AUDIO_DIR example_env) (''id1'' @ ''.wav''))
             ''RIFF'' = None"
    by (simp add: example_env_def)
  have t: "transcribe_audio example_env (os_path_join (AUDIO_DIR example_env) (''id1'' @ ''.wav''))
       (Some ''sk-no-summary'') (requests_sent empty_world) = (Inr example_transcript, ?s1)"
    by code_simp
  have g: "fst ?g = Inl (HTTPException 500 ''LLM error 429: quota exceeded'')"
    by code_simp
  have x: "fst ?x = Inr [\<lparr>task = ''Prepare the deck'', owner = Some ''Alice'',
            due_date = Some ''2024-01-17'', status = Some ''open''\<rparr>]"
    by code_simp
  have a: "get_current_user_from_header (Some ''Bearer tok-alice'') (users empty_world) =
     Inr example_user"
    by code_simp
  have g': "?g = (fst ?g, snd ?g)" by simp
  have x': "?x = (fst ?x, snd ?x)" by simp
  have one: "isl (fst ?g) \<or> isl (fst ?x)" by (simp add: g)
  from fan_out_failure_discards_both
         [OF s t g' x' one, of example_created "''Launch''" None None None None
            "Some ''Bearer tok-alice''"]
       s t g x a
  show ?thesis by simp
qed

end
